theory Spec2Isabelle
  imports Complex_Main
begin

section \<open>The Riemannian metric base class of geomstats\<close>

text \<open>
  The development embeds \<^verbatim>\<open>src/geomstats/riemannian_metric.py\<close>: the class
  \<^verbatim>\<open>RiemannianMetric\<close>, whose concrete variants supply the inner-product matrix, the
  exponential and the logarithm, and whose derived methods (inner product, norms,
  distances, weighted variance, iterative Frechet mean) are written once against them.

  Floating-point numbers are read as reals: rounding, infinities and NaN are outside the
  model. Tangent vectors are one-dimensional arrays, the inner-product matrix is a
  two-dimensional array, squared norms and squared distances are scalars; points are
  opaque, as they are to the class, which only hands them to the capabilities.
\<close>

subsection \<open>Exceptions\<close>

text \<open>
  The exceptions a call can end with. \<open>ValueError\<close> carries which of its sources raised
  it: the message of \<^verbatim>\<open>norm\<close> (the squared norm is negative), the message of
  \<^verbatim>\<open>dist\<close> (the squared distance is negative), numpy's misaligned shapes in
  \<^verbatim>\<open>np.dot\<close>, numpy's failed broadcast of an in-place addition, and Python's failed
  unpacking of a shape into two names. \<open>AttributeError\<close> carries the attribute that was
  looked up.
\<close>

datatype value_error =
  Norm_undefined | Dist_undefined | Shapes_not_aligned | Not_broadcastable | Unpack_shape

datatype error =
  NotImplementedError | ValueError value_error | AttributeError string | AssertionError |
  TypeError

subsection \<open>Arrays\<close>

type_synonym vec = "real list"

text \<open>A two-dimensional array: its number of columns and its rows, each of that length.\<close>

datatype matrix = Matrix nat "vec list"

text \<open>\<^verbatim>\<open>a.transpose()\<close> of a one-dimensional array is the array itself.\<close>

definition transpose_vec :: "vec \<Rightarrow> vec" where
  "transpose_vec a = a"

text \<open>
  \<^verbatim>\<open>np.dot\<close> of a one-dimensional array of length \<open>n\<close> and a two-dimensional array of shape
  \<open>(r, c)\<close>: a one-dimensional array of length \<open>c\<close> when \<open>n = r\<close>, a \<open>ValueError\<close> otherwise.
\<close>

definition dot_vm :: "vec \<Rightarrow> matrix \<Rightarrow> error + vec" where
  "dot_vm a m = (case m of Matrix c rows \<Rightarrow>
     if length a = length rows
     then Inr (map (\<lambda>j. sum_list (map (\<lambda>(x, row). x * row ! j) (zip a rows))) [0..<c])
     else Inl (ValueError Shapes_not_aligned))"

text \<open>\<^verbatim>\<open>np.dot\<close> of two one-dimensional arrays: their scalar product when the lengths agree.\<close>

definition dot_vv :: "vec \<Rightarrow> vec \<Rightarrow> error + real" where
  "dot_vv a b =
     (if length a = length b
      then Inr (sum_list (map (\<lambda>(x, y). x * y) (zip a b)))
      else Inl (ValueError Shapes_not_aligned))"

definition zeros_like :: "vec \<Rightarrow> vec" where
  "zeros_like a = map (\<lambda>_. 0) a"

text \<open>\<^verbatim>\<open>w * v\<close> for a scalar \<open>w\<close> and an array \<open>v\<close>.\<close>

definition scale :: "real \<Rightarrow> vec \<Rightarrow> vec" where
  "scale w v = map (\<lambda>x. w * x) v"

text \<open>
  \<^verbatim>\<open>t += v\<close> on one-dimensional arrays: the result keeps the shape of \<open>t\<close>, so \<open>v\<close> has the
  length of \<open>t\<close> or length one (and is then added to every entry); any other length is
  numpy's \<open>ValueError\<close>.
\<close>

definition iadd :: "vec \<Rightarrow> vec \<Rightarrow> error + vec" where
  "iadd t v =
     (if length v = length t then Inr (map (\<lambda>(x, y). x + y) (zip t v))
      else if length v = 1 then Inr (map (\<lambda>x. x + hd v) t)
      else Inl (ValueError Not_broadcastable))"

text \<open>\<^verbatim>\<open>t /= c\<close> for a scalar \<open>c\<close>.\<close>

definition idiv :: "vec \<Rightarrow> real \<Rightarrow> vec" where
  "idiv t c = map (\<lambda>x. x / c) t"

text \<open>
  The \<^verbatim>\<open>points\<close> argument, seen along its first axis. A Python list (or tuple) of points
  has a length and items but no \<^verbatim>\<open>shape\<close>. A numpy array has the shape
  \<open>(number of items,) + shape of one item\<close>; \<open>NDArray ish ps\<close> is the array whose items
  are \<open>ps\<close>, each of shape \<open>ish\<close>. A two-dimensional array is \<open>NDArray [k] rows\<close>.
\<close>

datatype 'p points = PyList "'p list" | NDArray "nat list" "'p list"

fun items :: "'p points \<Rightarrow> 'p list" where
  "items (PyList ps) = ps"
| "items (NDArray ish ps) = ps"

text \<open>\<^verbatim>\<open>len(points)\<close>.\<close>

definition len :: "'p points \<Rightarrow> nat" where
  "len points = length (items points)"

text \<open>\<^verbatim>\<open>points.shape\<close>.\<close>

fun shape :: "'p points \<Rightarrow> error + nat list" where
  "shape (PyList ps) = Inl (AttributeError ''shape'')"
| "shape (NDArray ish ps) = Inr (length ps # ish)"

subsection \<open>Program state and computations\<close>

text \<open>
  What a call can read and change: the instance attribute \<^verbatim>\<open>self.dimension\<close>, whatever
  else a concrete variant keeps on the instance, and the records sent to
  \<^verbatim>\<open>logging.warning\<close>, oldest first. The only record the class emits is
  \<^verbatim>\<open>'Maximum number of iterations {} reached.The mean may be inaccurate'\<close>, formatted with
  \<^verbatim>\<open>n_max_iterations\<close>.
\<close>

datatype log_record = Max_iterations_reached int

record 'x state =
  dimension :: int
  attrs :: 'x
  logged :: "log_record list"

text \<open>
  A method call: from the state before to the value returned or the exception raised, and
  the state after. An exception keeps the state reached when it was raised.
\<close>

type_synonym ('x, 'a) comp = "'x state \<Rightarrow> (error + 'a) \<times> 'x state"

definition ret :: "'a \<Rightarrow> ('x, 'a) comp" where
  "ret v = (\<lambda>s. (Inr v, s))"

definition raise :: "error \<Rightarrow> ('x, 'a) comp" where
  "raise e = (\<lambda>s. (Inl e, s))"

definition bnd :: "('x, 'a) comp \<Rightarrow> ('a \<Rightarrow> ('x, 'b) comp) \<Rightarrow> ('x, 'b) comp" where
  "bnd c f = (\<lambda>s. case c s of (Inl e, s') \<Rightarrow> (Inl e, s') | (Inr v, s') \<Rightarrow> f v s')"

text \<open>The result of a numpy operation, as a method call that leaves the state alone.\<close>

definition lift :: "error + 'a \<Rightarrow> ('x, 'a) comp" where
  "lift r = (case r of Inl e \<Rightarrow> raise e | Inr v \<Rightarrow> ret v)"

subsection \<open>The class\<close>

text \<open>
  An instance's methods that the class leaves to its concrete variants. The first three
  are the methods the class declares and raises \<open>NotImplementedError\<close> in:
  \<^verbatim>\<open>inner_product_matrix(base_point=None)\<close>, \<^verbatim>\<open>exp(tangent_vec, base_point=None)\<close> and
  \<^verbatim>\<open>log(point, base_point=None)\<close>. The fourth is the attribute \<^verbatim>\<open>self.squared_distance\<close>
  that \<^verbatim>\<open>variance\<close> and \<^verbatim>\<open>mean\<close> call: the class defines no method of that name (its own
  is \<^verbatim>\<open>squared_dist\<close>), so the lookup succeeds only on an instance whose concrete class adds
  one, and \<open>None\<close> is the class as written.
\<close>

record ('p, 'x) metric =
  inner_product_matrix :: "'p option \<Rightarrow> ('x, matrix) comp"
  exp_m :: "vec \<Rightarrow> 'p option \<Rightarrow> ('x, 'p) comp"
  log_m :: "'p \<Rightarrow> 'p option \<Rightarrow> ('x, vec) comp"
  squared_distance :: "('p \<Rightarrow> 'p \<Rightarrow> ('x, real) comp) option"

text \<open>\<^verbatim>\<open>__init__(self, dimension)\<close>.\<close>

definition init :: "int \<Rightarrow> 'x state \<Rightarrow> 'x state" where
  "init d s = s\<lparr>dimension := d\<rparr>"

text \<open>The class itself, with none of its methods overridden.\<close>

definition RiemannianMetric :: "('p, 'x) metric" where
  "RiemannianMetric =
     \<lparr>inner_product_matrix = (\<lambda>base_point. raise NotImplementedError),
      exp_m = (\<lambda>tangent_vec base_point. raise NotImplementedError),
      log_m = (\<lambda>point base_point. raise NotImplementedError),
      squared_distance = None\<rparr>"

definition inner_product ::
  "('p, 'x) metric \<Rightarrow> vec \<Rightarrow> vec \<Rightarrow> 'p option \<Rightarrow> ('x, real) comp" where
  "inner_product M tangent_vec_a tangent_vec_b base_point =
     bnd (inner_product_matrix M base_point) (\<lambda>inner_prod_mat.
     bnd (lift (dot_vm (transpose_vec tangent_vec_a) inner_prod_mat)) (\<lambda>row.
     lift (dot_vv row tangent_vec_b)))"

definition squared_norm :: "('p, 'x) metric \<Rightarrow> vec \<Rightarrow> 'p option \<Rightarrow> ('x, real) comp" where
  "squared_norm M vector base_point = inner_product M vector vector base_point"

definition norm_m :: "('p, 'x) metric \<Rightarrow> vec \<Rightarrow> 'p option \<Rightarrow> ('x, real) comp" where
  "norm_m M vector base_point =
     bnd (squared_norm M vector base_point) (\<lambda>sq_norm.
     if sq_norm < 0 then raise (ValueError Norm_undefined) else ret (sqrt sq_norm))"

definition squared_dist :: "('p, 'x) metric \<Rightarrow> 'p \<Rightarrow> 'p \<Rightarrow> ('x, real) comp" where
  "squared_dist M point_a point_b =
     bnd (log_m M point_b (Some point_a)) (\<lambda>log.
     squared_norm M log (Some point_a))"

definition dist_m :: "('p, 'x) metric \<Rightarrow> 'p \<Rightarrow> 'p \<Rightarrow> ('x, real) comp" where
  "dist_m M point_a point_b =
     bnd (squared_dist M point_a point_b) (\<lambda>sq_dist.
     if sq_dist < 0 then raise (ValueError Dist_undefined) else ret (sqrt sq_dist))"

text \<open>
  The call \<^verbatim>\<open>self.squared_distance(a, b)\<close>: the attribute lookup, then the call.
\<close>

definition call_squared_distance :: "('p, 'x) metric \<Rightarrow> 'p \<Rightarrow> 'p \<Rightarrow> ('x, real) comp" where
  "call_squared_distance M a b =
     (case squared_distance M of
        None \<Rightarrow> raise (AttributeError ''squared_distance'')
      | Some f \<Rightarrow> f a b)"

text \<open>
  The loop \<^verbatim>\<open>for i in range(n_points)\<close> of \<^verbatim>\<open>variance\<close>, over the indices still to visit,
  with the sum so far.
\<close>

fun variance_loop ::
  "('p, 'x) metric \<Rightarrow> 'p \<Rightarrow> 'p list \<Rightarrow> real list \<Rightarrow> nat list \<Rightarrow> real \<Rightarrow> ('x, real) comp" where
  "variance_loop M base_point rows weights [] acc = ret acc"
| "variance_loop M base_point rows weights (i # rest) acc =
     (let weight_i = weights ! i;
          point_i = rows ! i
      in bnd (call_squared_distance M base_point point_i) (\<lambda>sq_dist.
         variance_loop M base_point rows weights rest (acc + weight_i * sq_dist)))"

definition variance ::
  "('p, 'x) metric \<Rightarrow> 'p \<Rightarrow> 'p points \<Rightarrow> real list \<Rightarrow> ('x, real) comp" where
  "variance M base_point points weights =
     bnd (lift (shape points)) (\<lambda>points_shape.
     case points_shape of
       [n_points, _] \<Rightarrow>
         (let n_weights = length weights
          in if \<not> n_points > 0 then raise AssertionError
             else if \<not> n_points = n_weights then raise AssertionError
             else variance_loop M base_point (items points) weights [0..<n_points] 0)
     | _ \<Rightarrow> raise (ValueError Unpack_shape))"

text \<open>
  The inner loop of \<^verbatim>\<open>mean\<close>:
  \<^verbatim>\<open>tangent_mean += weight_i * self.log(point=point_i, base_point=mean)\<close>.
\<close>

fun tangent_mean_loop ::
  "('p, 'x) metric \<Rightarrow> 'p list \<Rightarrow> real list \<Rightarrow> 'p \<Rightarrow> nat list \<Rightarrow> vec \<Rightarrow> ('x, vec) comp" where
  "tangent_mean_loop M pts weights mean [] tangent_mean = ret tangent_mean"
| "tangent_mean_loop M pts weights mean (i # rest) tangent_mean =
     (let point_i = pts ! i;
          weight_i = weights ! i
      in bnd (log_m M point_i (Some mean)) (\<lambda>log_i.
         bnd (lift (iadd tangent_mean (scale weight_i log_i))) (\<lambda>tangent_mean.
         tangent_mean_loop M pts weights mean rest tangent_mean)))"

text \<open>
  One pass through the body of \<^verbatim>\<open>while True\<close>, up to the two quantities its exit test
  compares: \<^verbatim>\<open>sq_dist\<close> and \<^verbatim>\<open>variance\<close>. (The list \<^verbatim>\<open>sq_dists_between_iterates\<close> is
  appended to and never read.)
\<close>

definition mean_iteration ::
  "('p, 'x) metric \<Rightarrow> 'p points \<Rightarrow> real list \<Rightarrow> real \<Rightarrow> 'p \<Rightarrow> nat \<Rightarrow> ('x, real \<times> real) comp" where
  "mean_iteration M points weights sum_weights mean n_points =
     bnd (log_m M mean (Some mean)) (\<lambda>a_tangent_vector.
     bnd (tangent_mean_loop M (items points) weights mean [0..<n_points]
            (zeros_like a_tangent_vector)) (\<lambda>tangent_mean.
     bnd (exp_m M (idiv tangent_mean sum_weights) (Some mean)) (\<lambda>mean_next.
     bnd (call_squared_distance M mean_next mean) (\<lambda>sq_dist.
     bnd (variance M mean_next points weights) (\<lambda>var.
     ret (sq_dist, var))))))"

text \<open>
  The loop \<^verbatim>\<open>while True\<close>. Its only exit is the \<^verbatim>\<open>break\<close> of the test
  \<^verbatim>\<open>sq_dist < epsilon * variance\<close>; the test \<^verbatim>\<open>it == n_max_iterations\<close> logs a warning
  and goes on. The first argument bounds the number of passes: \<open>None\<close> is a loop still
  running after that many. \<^verbatim>\<open>return mean\<close> follows the loop.
\<close>

fun mean_loop ::
  "nat \<Rightarrow> ('p, 'x) metric \<Rightarrow> 'p points \<Rightarrow> real list \<Rightarrow> real \<Rightarrow> 'p \<Rightarrow> nat \<Rightarrow> int \<Rightarrow> real \<Rightarrow>
   int \<Rightarrow> 'x state \<Rightarrow> ((error + 'p) \<times> 'x state) option" where
  "mean_loop 0 M points weights sum_weights mean n_points n_max_iterations epsilon it s = None"
| "mean_loop (Suc fuel) M points weights sum_weights mean n_points n_max_iterations epsilon it s =
     (let it = it + 1
      in case mean_iteration M points weights sum_weights mean n_points s of
           (Inl e, s') \<Rightarrow> Some (Inl e, s')
         | (Inr (sq_dist, var), s') \<Rightarrow>
             if sq_dist < epsilon * var then Some (Inr mean, s')
             else if it = n_max_iterations
             then mean_loop fuel M points weights sum_weights mean n_points n_max_iterations
                    epsilon it (s'\<lparr>logged := logged s' @ [Max_iterations_reached n_max_iterations]\<rparr>)
             else mean_loop fuel M points weights sum_weights mean n_points n_max_iterations
                    epsilon it s')"

definition EPSILON :: real where
  "EPSILON = 1 / 100000"

text \<open>
  \<^verbatim>\<open>mean(points, weights=None, n_max_iterations=100, epsilon=EPSILON)\<close>, with the bound on
  the passes of its loop in front.
\<close>

definition mean ::
  "nat \<Rightarrow> ('p, 'x) metric \<Rightarrow> 'p points \<Rightarrow> real list option \<Rightarrow> int \<Rightarrow> real \<Rightarrow>
   'x state \<Rightarrow> ((error + 'p) \<times> 'x state) option" where
  "mean fuel M points weights n_max_iterations epsilon s =
     (let n_points = len points
      in if \<not> n_points > 0 then Some (raise AssertionError s)
         else
           let weights = (case weights of None \<Rightarrow> replicate n_points 1 | Some w \<Rightarrow> w);
               n_weights = length weights
           in if \<not> n_points = n_weights then Some (raise AssertionError s)
              else
                let sum_weights = sum_list weights;
                    mean_0 = items points ! 0
                in if n_points = 1 then Some (ret mean_0 s)
                   else mean_loop fuel M points weights sum_weights mean_0 n_points
                          n_max_iterations epsilon 0 s)"

subsection \<open>Properties of calls\<close>

text \<open>The exception raised is a \<open>ValueError\<close>, whichever its message.\<close>

definition is_ValueError :: "error + 'a \<Rightarrow> bool" where
  "is_ValueError r = (case r of Inl (ValueError k) \<Rightarrow> True | _ \<Rightarrow> False)"

text \<open>
  \<^verbatim>\<open>n_points, _ = points.shape\<close> succeeds: the argument has a shape, of exactly two values.
\<close>

definition unpacks_into_two :: "'p points \<Rightarrow> bool" where
  "unpacks_into_two points = (case shape points of Inr [n, k] \<Rightarrow> True | _ \<Rightarrow> False)"

text \<open>
  A call keeps a view \<open>g\<close> of the state when the state it ends in, by return or by
  exception, has the same view as the state it started in. The two views of interest are
  \<^verbatim>\<open>self.dimension\<close> alone and the whole instance.
\<close>

definition keeps :: "('x state \<Rightarrow> 'v) \<Rightarrow> ('x, 'a) comp \<Rightarrow> bool" where
  "keeps g c = (\<forall>s. g (snd (c s)) = g s)"

definition self_of :: "'x state \<Rightarrow> int \<times> 'x" where
  "self_of s = (dimension s, attrs s)"

definition ignores_log :: "('x state \<Rightarrow> 'v) \<Rightarrow> bool" where
  "ignores_log g = (\<forall>s l. g (s\<lparr>logged := l\<rparr>) = g s)"

text \<open>Every method a concrete variant supplies keeps the view.\<close>

definition capabilities_keep :: "('x state \<Rightarrow> 'v) \<Rightarrow> ('p, 'x) metric \<Rightarrow> bool" where
  "capabilities_keep g M =
     ((\<forall>base_point. keeps g (inner_product_matrix M base_point)) \<and>
      (\<forall>v base_point. keeps g (exp_m M v base_point)) \<and>
      (\<forall>q base_point. keeps g (log_m M q base_point)) \<and>
      (case squared_distance M of None \<Rightarrow> True | Some f \<Rightarrow> \<forall>a b. keeps g (f a b)))"

text \<open>
  Every derived method keeps the view; for \<^verbatim>\<open>mean\<close>, every call that ends, by return or by
  exception.
\<close>

definition derived_keep :: "('x state \<Rightarrow> 'v) \<Rightarrow> ('p, 'x) metric \<Rightarrow> bool" where
  "derived_keep g M =
     ((\<forall>a b p. keeps g (inner_product M a b p)) \<and>
      (\<forall>v p. keeps g (squared_norm M v p)) \<and>
      (\<forall>v p. keeps g (norm_m M v p)) \<and>
      (\<forall>a b. keeps g (squared_dist M a b)) \<and>
      (\<forall>a b. keeps g (dist_m M a b)) \<and>
      (\<forall>base_point points weights. keeps g (variance M base_point points weights)) \<and>
      (\<forall>fuel points weights n_max_iterations epsilon s.
         case mean fuel M points weights n_max_iterations epsilon s of
           None \<Rightarrow> True
         | Some (r, s') \<Rightarrow> g s' = g s))"

subsection \<open>Concrete variants\<close>

text \<open>
  The flat metric of the plane: the inner-product matrix is the identity, \<^verbatim>\<open>exp(v, p) = p + v\<close>
  and \<^verbatim>\<open>log(q, p) = q - p\<close> on arrays of equal length. It overrides the three methods the
  class declares and nothing else. Without a base point, \<^verbatim>\<open>None + v\<close> is a \<open>TypeError\<close>.
\<close>

definition vec_add :: "vec \<Rightarrow> vec \<Rightarrow> error + vec" where
  "vec_add p v =
     (if length p = length v then Inr (map (\<lambda>(x, y). x + y) (zip p v))
      else Inl (ValueError Not_broadcastable))"

definition vec_sub :: "vec \<Rightarrow> vec \<Rightarrow> error + vec" where
  "vec_sub q p =
     (if length q = length p then Inr (map (\<lambda>(x, y). x - y) (zip q p))
      else Inl (ValueError Not_broadcastable))"

definition euclid2 :: "(vec, 'x) metric" where
  "euclid2 =
     \<lparr>inner_product_matrix = (\<lambda>base_point. ret (Matrix 2 [[1, 0], [0, 1]])),
      exp_m = (\<lambda>v base_point.
        case base_point of None \<Rightarrow> raise TypeError | Some p \<Rightarrow> lift (vec_add p v)),
      log_m = (\<lambda>q base_point.
        case base_point of None \<Rightarrow> raise TypeError | Some p \<Rightarrow> lift (vec_sub q p)),
      squared_distance = None\<rparr>"

text \<open>
  The same metric in a class that also defines \<^verbatim>\<open>squared_distance\<close>, as its
  \<^verbatim>\<open>squared_dist\<close>.
\<close>

definition euclid2_sd :: "(vec, 'x) metric" where
  "euclid2_sd = euclid2\<lparr>squared_distance := Some (squared_dist euclid2)\<rparr>"

text \<open>An indefinite metric of the plane: the inner-product matrix is \<open>diag(1, -1)\<close>.\<close>

definition minkowski2 :: "(vec, 'x) metric" where
  "minkowski2 = euclid2\<lparr>inner_product_matrix := (\<lambda>base_point. ret (Matrix 2 [[1, 0], [0, -1]]))\<rparr>"

text \<open>
  A metric of the plane that depends on the base point: the inner-product matrix at \<open>p\<close> is
  the identity scaled by \<open>1 + p[0]\<close>, and the identity without a base point.
\<close>

definition conformal2 :: "(vec, 'x) metric" where
  "conformal2 = euclid2\<lparr>inner_product_matrix := (\<lambda>base_point.
     case base_point of
       None \<Rightarrow> ret (Matrix 2 [[1, 0], [0, 1]])
     | Some p \<Rightarrow> ret (Matrix 2 [[1 + p ! 0, 0], [0, 1 + p ! 0]]))\<rparr>"

text \<open>
  A variant that keeps on the instance how many times its \<^verbatim>\<open>squared_distance\<close> was called;
  the method answers 1, except at its seventh call, where it answers 0.
\<close>

definition settling :: "(vec, nat) metric" where
  "settling = euclid2\<lparr>squared_distance :=
     Some (\<lambda>a b s. (Inr (if attrs s = 6 then 0 else 1), s\<lparr>attrs := attrs s + 1\<rparr>))\<rparr>"

text \<open>
  The flat metric of the line on scalar points, tangent vectors being arrays of length
  one, in a class that defines \<^verbatim>\<open>squared_distance\<close>.
\<close>

definition line_sd :: "(real, 'x) metric" where
  "line_sd =
     \<lparr>inner_product_matrix = (\<lambda>base_point. ret (Matrix 1 [[1]])),
      exp_m = (\<lambda>v base_point.
        case base_point of None \<Rightarrow> raise TypeError | Some p \<Rightarrow> ret (p + sum_list v)),
      log_m = (\<lambda>q base_point.
        case base_point of None \<Rightarrow> raise TypeError | Some p \<Rightarrow> ret [q - p]),
      squared_distance = Some (\<lambda>a b. ret ((b - a) * (b - a)))\<rparr>"

text \<open>Instances constructed with dimension 2, nothing logged yet.\<close>

definition s0 :: "unit state" where
  "s0 = init 2 \<lparr>dimension = 0, attrs = (), logged = []\<rparr>"

definition c0 :: "nat state" where
  "c0 = init 2 \<lparr>dimension = 0, attrs = 0, logged = []\<rparr>"

section \<open>Evaluation\<close>

lemmas comp_defs = bnd_def ret_def raise_def lift_def

lemma range_2: "[0..<2] = [0, 1]"
  by (simp add: upt_rec)

lemma range_3: "[0..<3] = [0, 1, 2]"
  by (simp add: upt_rec)

lemmas array_defs =
  dot_vm_def dot_vv_def transpose_vec_def vec_sub_def vec_add_def zeros_like_def scale_def
  iadd_def idiv_def range_2 range_3

lemmas state_defs = s0_def c0_def init_def

section \<open>Distances and norms\<close>

text \<open>
  Claim C6. For every pair of points \<open>a\<close>, \<open>b\<close>, \<^verbatim>\<open>squared_dist(a, b)\<close> is
  \<^verbatim>\<open>squared_norm(log(b, a), a)\<close>: the logarithm of \<open>b\<close> is taken at the base point \<open>a\<close>, and
  the squared norm of the result is taken at the base point \<open>a\<close> again, in the state the
  logarithm left. An exception of the logarithm is the exception of \<^verbatim>\<open>squared_dist\<close>.
\<close>

theorem squared_dist_base_point:
  "squared_dist M a b s =
     (case log_m M b (Some a) s of
        (Inl e, s') \<Rightarrow> (Inl e, s')
      | (Inr l, s') \<Rightarrow> squared_norm M l (Some a) s')"
  by (simp add: squared_dist_def bnd_def)

text \<open>
  The base point matters: on a metric that depends on it, exchanging the two points
  changes the squared distance.
\<close>

lemma squared_dist_not_symmetric:
  "squared_dist conformal2 [0, 0] [1, 0] s0 = (Inr 1, s0) \<and>
   squared_dist conformal2 [1, 0] [0, 0] s0 = (Inr 2, s0)"
  by (simp add: squared_dist_def squared_norm_def inner_product_def conformal2_def euclid2_def
      comp_defs array_defs)

lemma norm_m_result:
  "squared_norm M v p s = (Inr x, s') \<Longrightarrow>
     norm_m M v p s = (if x < 0 then Inl (ValueError Norm_undefined) else Inr (sqrt x), s')"
  by (simp add: norm_m_def comp_defs)

lemma dist_m_result:
  "squared_dist M a b s = (Inr y, s') \<Longrightarrow>
     dist_m M a b s = (if y < 0 then Inl (ValueError Dist_undefined) else Inr (sqrt y), s')"
  by (simp add: dist_m_def comp_defs)

text \<open>
  Claim C5. When \<^verbatim>\<open>squared_norm(v, p)\<close> evaluates to \<open>x\<close>, \<^verbatim>\<open>norm(v, p)\<close> raises a
  \<open>ValueError\<close> if and only if \<open>x < 0\<close>, the one with the message of \<^verbatim>\<open>norm\<close>, and
  otherwise returns \<open>sqrt x\<close>, which is not negative. When \<^verbatim>\<open>squared_dist(a, b)\<close> evaluates
  to \<open>y\<close>, \<^verbatim>\<open>dist(a, b)\<close> raises a \<open>ValueError\<close> if and only if \<open>y < 0\<close>, the one with the
  message of \<^verbatim>\<open>dist\<close>, and otherwise returns \<open>sqrt y\<close>, which is not negative.
\<close>

theorem norm_dist_domain_error:
  "(squared_norm M v p s = (Inr x, s') \<longrightarrow>
      (is_ValueError (fst (norm_m M v p s)) \<longleftrightarrow> x < 0) \<and>
      norm_m M v p s =
        (if x < 0 then Inl (ValueError Norm_undefined) else Inr (sqrt x), s') \<and>
      (0 \<le> x \<longrightarrow> 0 \<le> sqrt x)) \<and>
   (squared_dist M a b t = (Inr y, t') \<longrightarrow>
      (is_ValueError (fst (dist_m M a b t)) \<longleftrightarrow> y < 0) \<and>
      dist_m M a b t =
        (if y < 0 then Inl (ValueError Dist_undefined) else Inr (sqrt y), t') \<and>
      (0 \<le> y \<longrightarrow> 0 \<le> sqrt y))"
  by (simp add: norm_m_result dist_m_result is_ValueError_def)

lemma squared_norm_minkowski2: "squared_norm minkowski2 [1, 2] None s0 = (Inr (- 3), s0)"
  by (simp add: squared_norm_def inner_product_def minkowski2_def euclid2_def comp_defs
      array_defs)

lemma squared_norm_euclid2: "squared_norm euclid2 [3, 4] None s0 = (Inr 25, s0)"
  by (simp add: squared_norm_def inner_product_def euclid2_def comp_defs array_defs)

lemma squared_dist_minkowski2: "squared_dist minkowski2 [0, 0] [1, 2] s0 = (Inr (- 3), s0)"
  by (simp add: squared_dist_def squared_norm_def inner_product_def minkowski2_def euclid2_def
      comp_defs array_defs)

lemma squared_dist_euclid2: "squared_dist euclid2 [0, 0] [3, 4] s0 = (Inr 25, s0)"
  by (simp add: squared_dist_def squared_norm_def inner_product_def euclid2_def comp_defs
      array_defs)

theorem norm_dist_domain_error_witness:
  "norm_m minkowski2 [1, 2] None s0 = (Inl (ValueError Norm_undefined), s0) \<and>
   is_ValueError (fst (norm_m minkowski2 [1, 2] None s0)) \<and>
   norm_m euclid2 [3, 4] None s0 = (Inr 5, s0) \<and>
   \<not> is_ValueError (fst (norm_m euclid2 [3, 4] None s0)) \<and>
   dist_m minkowski2 [0, 0] [1, 2] s0 = (Inl (ValueError Dist_undefined), s0) \<and>
   dist_m euclid2 [0, 0] [3, 4] s0 = (Inr 5, s0)"
  using norm_dist_domain_error [of minkowski2 "[1, 2]" None s0 "- 3" s0
      "[0, 0]" "[1, 2]" s0 "- 3" s0]
    norm_dist_domain_error [of euclid2 "[3, 4]" None s0 25 s0 "[0, 0]" "[3, 4]" s0 25 s0]
    squared_norm_minkowski2 squared_norm_euclid2 squared_dist_minkowski2 squared_dist_euclid2
  by (simp add: is_ValueError_def)

section \<open>The weighted variance\<close>

lemma variance_not_two_dimensional:
  "\<not> unpacks_into_two points \<Longrightarrow>
   variance M base_point points weights s =
     (Inl (case points of
             PyList ps \<Rightarrow> AttributeError ''shape''
           | NDArray ish ps \<Rightarrow> ValueError Unpack_shape), s)"
  by (cases points)
     (auto simp: variance_def unpacks_into_two_def comp_defs split: list.splits)

lemma variance_assertions:
  "ps = [] \<or> length ps \<noteq> length weights \<Longrightarrow>
   variance M base_point (NDArray [k] ps) weights s = (Inl AssertionError, s)"
  by (auto simp: variance_def comp_defs)

lemma variance_loop_no_attribute:
  "squared_distance M = None \<Longrightarrow> is \<noteq> [] \<Longrightarrow>
   variance_loop M base_point ps weights is acc s =
     (Inl (AttributeError ''squared_distance''), s)"
  by (cases "is") (simp_all add: comp_defs call_squared_distance_def)

text \<open>
  What the loop of \<^verbatim>\<open>variance\<close> adds up when the instance has a \<^verbatim>\<open>squared_distance\<close> that
  returns \<open>d a b\<close> and leaves the state alone: the weighted sum of its answers.
\<close>

lemma variance_loop_weighted_sum:
  assumes "squared_distance M = Some f" and "\<And>a b s. f a b s = (Inr (d a b), s)"
  shows "variance_loop M base_point ps weights is acc s =
           (Inr (acc + (\<Sum>i\<leftarrow>is. weights ! i * d base_point (ps ! i))), s)"
  using assms
  by (induction "is" arbitrary: acc)
     (simp_all add: comp_defs call_squared_distance_def algebra_simps)

lemma variance_weighted_sum:
  assumes "squared_distance M = Some f" and "\<And>a b s. f a b s = (Inr (d a b), s)"
    and "ps \<noteq> []" and "length weights = length ps"
  shows "variance M base_point (NDArray [k] ps) weights s =
           (Inr (\<Sum>i\<leftarrow>[0..<length ps]. weights ! i * d base_point (ps ! i)), s)"
  using assms(3,4) variance_loop_weighted_sum [OF assms(1,2), of base_point ps weights _ 0 s]
  by (simp add: variance_def comp_defs)

text \<open>
  Claim C1. The claim is that \<^verbatim>\<open>variance(base_point, points, weights)\<close> returns the sum of
  \<^verbatim>\<open>weights[i] * squared_dist(base_point, points[i])\<close>. The method calls
  \<^verbatim>\<open>self.squared_distance\<close>, which the class does not define: on every instance without
  that attribute, every non-empty two-dimensional array of points and every weights of
  the same length, the call ends in the first pass of its loop with an \<open>AttributeError\<close>,
  and returns no sum.
\<close>

theorem variance_calls_missing_squared_distance:
  assumes "squared_distance M = None" and "ps \<noteq> []" and "length weights = length ps"
  shows "variance M base_point (NDArray [k] ps) weights s =
           (Inl (AttributeError ''squared_distance''), s)"
proof -
  have "[0..<length ps] \<noteq> []"
    using assms(2) by simp
  from variance_loop_no_attribute [OF assms(1) this]
  show ?thesis
    using assms(2,3) by (simp add: variance_def comp_defs)
qed

theorem variance_calls_missing_squared_distance_witness:
  "squared_distance (euclid2 :: (vec, unit) metric) = None \<and>
   variance euclid2 [0, 0] (NDArray [2] [[1, 0]]) [1] s0 =
     (Inl (AttributeError ''squared_distance''), s0)"
  using variance_calls_missing_squared_distance
    [of "euclid2 :: (vec, unit) metric" "[[1, 0]]" "[1]" "[0, 0]" 2 s0]
  by (simp add: euclid2_def)

section \<open>The Frechet mean\<close>

lemma mean_single:
  "items points = [p] \<Longrightarrow> weights = None \<or> (\<exists>w. weights = Some [w]) \<Longrightarrow>
   mean fuel M points weights n_max_iterations epsilon s = Some (Inr p, s)"
  by (auto simp: mean_def len_def comp_defs)

lemma mean_assertions:
  "items points = [] \<or> (\<exists>ws. weights = Some ws \<and> length ws \<noteq> len points) \<Longrightarrow>
   mean fuel M points weights n_max_iterations epsilon s = Some (Inl AssertionError, s)"
  by (auto simp: mean_def len_def comp_defs Let_def)

text \<open>
  Claim C7. For a single point \<open>p\<close>, in a list or in an array of any shape, and weights that
  are absent or one number \<open>w\<close> of any value, \<^verbatim>\<open>mean\<close> returns \<open>p\<close>: whatever the methods
  of the instance do, with the state unchanged and with no pass through the loop (the
  bound on the passes can be 0).
\<close>

theorem mean_single_point:
  assumes "items points = [p]" and "weights = None \<or> (\<exists>w. weights = Some [w])"
  shows "mean fuel M points weights n_max_iterations epsilon s = Some (Inr p, s)"
  using assms by (rule mean_single)

theorem mean_single_point_witness:
  "mean 0 (RiemannianMetric :: (vec, unit) metric) (PyList [[3, 4]]) (Some [5]) 100 EPSILON s0 =
     Some (Inr [3, 4], s0) \<and>
   mean 0 (RiemannianMetric :: (vec, unit) metric) (NDArray [2] [[3, 4]]) None 100 EPSILON s0 =
     Some (Inr [3, 4], s0)"
  using mean_single_point [of "PyList [[3, 4]]" "[3, 4]" "Some [5]" 0 RiemannianMetric 100 EPSILON s0]
    mean_single_point [of "NDArray [2] [[3, 4]]" "[3, 4]" None 0 RiemannianMetric 100 EPSILON s0]
  by simp

text \<open>
  Claim C8. A call of \<^verbatim>\<open>variance\<close> on a two-dimensional array of points that is empty, or
  whose length differs from the length of the weights, ends with an \<open>AssertionError\<close>; so
  does a call of \<^verbatim>\<open>mean\<close> on points that are empty, or whose length differs from the length
  of the weights given. Both end before anything is computed: whatever the methods of the
  instance do, the state is unchanged, and \<^verbatim>\<open>mean\<close> makes no pass through its loop.
\<close>

theorem preconditions_fail_fast:
  "(ps = [] \<or> length ps \<noteq> length ws \<longrightarrow>
      variance M base_point (NDArray [k] ps) ws s = (Inl AssertionError, s)) \<and>
   (items points = [] \<or> (\<exists>ws. weights = Some ws \<and> length ws \<noteq> len points) \<longrightarrow>
      mean fuel M points weights n_max_iterations epsilon s = Some (Inl AssertionError, s))"
  using variance_assertions [of ps ws M base_point k s]
    mean_assertions [of points weights fuel M n_max_iterations epsilon s]
  by blast

theorem preconditions_fail_fast_witness:
  "variance (euclid2_sd :: (vec, unit) metric) [0, 0] (NDArray [2] []) [] s0 =
     (Inl AssertionError, s0) \<and>
   variance (euclid2_sd :: (vec, unit) metric) [0, 0] (NDArray [2] [[1, 0]]) [1, 1] s0 =
     (Inl AssertionError, s0) \<and>
   mean 0 (euclid2_sd :: (vec, unit) metric) (PyList []) None 100 EPSILON s0 =
     Some (Inl AssertionError, s0) \<and>
   mean 0 (euclid2_sd :: (vec, unit) metric) (PyList [[0, 0], [2, 0]]) (Some [1]) 100 EPSILON s0 =
     Some (Inl AssertionError, s0)"
  using preconditions_fail_fast [of "[]" "[]" euclid2_sd "[0, 0]" 2 s0 "PyList []" None 0 100 EPSILON]
    preconditions_fail_fast [of "[[1, 0]]" "[1, 1]" euclid2_sd "[0, 0]" 2 s0
      "PyList [[0, 0], [2, 0]]" "Some [1]" 0 100 EPSILON]
  by (simp add: len_def)

subsection \<open>The loop\<close>

lemma mean_loop_numeral:
  "mean_loop (numeral k) M points ws sw m np n eps it s =
     (case mean_iteration M points ws sw m np s of
        (Inl e, s') \<Rightarrow> Some (Inl e, s')
      | (Inr (sq_dist, var), s') \<Rightarrow>
          if sq_dist < eps * var then Some (Inr m, s')
          else if it + 1 = n
          then mean_loop (pred_numeral k) M points ws sw m np n eps (it + 1)
                 (s'\<lparr>logged := logged s' @ [Max_iterations_reached n]\<rparr>)
          else mean_loop (pred_numeral k) M points ws sw m np n eps (it + 1) s')"
  by (simp only: numeral_eq_Suc mean_loop.simps Let_def)

lemma mean_loop_returns_mean:
  "mean_loop fuel M points ws sw m np n eps it s = Some (Inr r, s') \<Longrightarrow> r = m"
  by (induction fuel arbitrary: it s)
     (auto simp: Let_def split: prod.splits sum.splits if_splits)

text \<open>
  A pass that leaves the state alone and fails the exit test is followed by the same pass:
  the loop never ends, whatever \<^verbatim>\<open>n_max_iterations\<close> is.
\<close>

lemma mean_loop_runs_on:
  assumes "\<And>s. mean_iteration M points ws sw m np s = (Inr (sq, var), s)"
    and "\<not> sq < eps * var"
  shows "mean_loop fuel M points ws sw m np n eps it s = None"
  using assms by (induction fuel arbitrary: it s) (simp_all add: Let_def)

lemma settling_iteration:
  "mean_iteration settling (NDArray [2] [[0, 0], [2, 0]]) [1, 1] 2 [0, 0] (Suc (Suc 0)) s =
     (Inr (if attrs s = 6 then 0 else 1,
           (if attrs s = 5 then 0 else 1) + (if attrs s = 4 then 0 else 1)),
      s\<lparr>attrs := attrs s + 3\<rparr>)"
  by (simp add: mean_iteration_def variance_def call_squared_distance_def settling_def
      euclid2_def comp_defs array_defs)

lemma mean_settling:
  "mean 3 settling (NDArray [2] [[0, 0], [2, 0]]) None 2 EPSILON c0 =
     Some (Inr [0, 0], c0\<lparr>attrs := 9, logged := [Max_iterations_reached 2]\<rparr>)"
  by (simp add: mean_def len_def mean_loop_numeral settling_iteration EPSILON_def state_defs)

lemma euclid2_sd_iteration_two:
  "mean_iteration euclid2_sd (NDArray [2] [[0, 0], [2, 0]]) [1, 1] 2 [0, 0] (Suc (Suc 0)) s =
     (Inr (1, 2), s)"
  by (simp add: mean_iteration_def variance_def call_squared_distance_def squared_dist_def
      squared_norm_def inner_product_def euclid2_sd_def euclid2_def comp_defs array_defs)

lemma euclid2_sd_iteration_three:
  "mean_iteration euclid2_sd (NDArray [2] [[0, 0], [2, 0], [1, 2]]) [1, 1, 1] 3 [0, 0]
     (Suc (Suc (Suc 0))) s =
     (Inr (13 / 9, 14 / 3), s)"
  by (simp add: mean_iteration_def variance_def call_squared_distance_def squared_dist_def
      squared_norm_def inner_product_def euclid2_sd_def euclid2_def comp_defs array_defs)

lemma mean_two_points_runs_on:
  "mean fuel euclid2_sd (NDArray [2] [[0, 0], [2, 0]]) None 2 EPSILON s = None"
  using mean_loop_runs_on
    [of euclid2_sd "NDArray [2] [[0, 0], [2, 0]]" "[1, 1]" 2 "[0, 0]" "Suc (Suc 0)" 1 2 EPSILON]
  by (simp add: mean_def len_def euclid2_sd_iteration_two EPSILON_def)

lemma mean_three_points_runs_on:
  "mean fuel euclid2_sd (NDArray [2] [[0, 0], [2, 0], [1, 2]]) (Some [1, 1, 1]) 100 EPSILON s =
     None"
  using mean_loop_runs_on
    [of euclid2_sd "NDArray [2] [[0, 0], [2, 0], [1, 2]]" "[1, 1, 1]" 3 "[0, 0]"
      "Suc (Suc (Suc 0))" "13 / 9" "14 / 3" EPSILON]
  by (simp add: mean_def len_def euclid2_sd_iteration_three EPSILON_def)

lemma mean_two_points_no_attribute:
  "mean (Suc fuel) euclid2 (NDArray [2] [[0, 0], [2, 0]]) None 2 EPSILON s =
     Some (Inl (AttributeError ''squared_distance''), s)"
  by (simp add: mean_def len_def mean_iteration_def call_squared_distance_def euclid2_def
      comp_defs array_defs)

lemma mean_three_points_no_attribute:
  "mean (Suc fuel) euclid2 (NDArray [2] [[0, 0], [2, 0], [1, 2]]) (Some [1, 1, 1]) 100 EPSILON s =
     Some (Inl (AttributeError ''squared_distance''), s)"
  by (simp add: mean_def len_def mean_iteration_def call_squared_distance_def euclid2_def
      comp_defs array_defs)

text \<open>
  Claim C2. The claim is that the loop of \<^verbatim>\<open>mean\<close> ends: at the exit test, or else after
  \<^verbatim>\<open>n_max_iterations\<close> passes, with one warning and the current estimate returned. On the
  points \<open>[[0,0],[2,0]]\<close> with \<^verbatim>\<open>n_max_iterations = 2\<close>, the flat metric of the plane ends in
  its first pass with an \<open>AttributeError\<close> at \<^verbatim>\<open>self.squared_distance\<close>, returning nothing;
  and in a class that defines \<^verbatim>\<open>squared_distance\<close> the loop is still running after any
  number of passes, since the test \<^verbatim>\<open>it == n_max_iterations\<close> logs and does not leave the
  loop.
\<close>

theorem mean_does_not_stop_at_max_iterations:
  "mean (Suc fuel) (euclid2 :: (vec, unit) metric) (NDArray [2] [[0, 0], [2, 0]]) None 2
       EPSILON s0 =
     Some (Inl (AttributeError ''squared_distance''), s0) \<and>
   mean fuel (euclid2_sd :: (vec, unit) metric) (NDArray [2] [[0, 0], [2, 0]]) None 2
       EPSILON s0 =
     None"
  by (simp add: mean_two_points_no_attribute mean_two_points_runs_on)

text \<open>
  Claim C3. Every call of \<^verbatim>\<open>mean\<close> on two or more points that returns a value returns
  \<^verbatim>\<open>points[0]\<close>, whatever the number of passes its loop made.
\<close>

theorem mean_returns_initial_point:
  assumes "mean fuel M points weights n_max_iterations epsilon s = Some (Inr r, s')"
    and "2 \<le> len points"
  shows "r = items points ! 0"
  using assms(1)
  by (auto simp: mean_def Let_def comp_defs split: if_splits dest: mean_loop_returns_mean)

theorem mean_returns_initial_point_witness:
  "mean 3 settling (NDArray [2] [[0, 0], [2, 0]]) None 2 EPSILON c0 =
     Some (Inr [0, 0], c0\<lparr>attrs := 9, logged := [Max_iterations_reached 2]\<rparr>) \<and>
   2 \<le> len (NDArray [2] [[0, 0], [2 :: real, 0]]) \<and>
   [0 :: real, 0] = items (NDArray [2] [[0, 0], [2, 0]]) ! 0"
proof -
  have two: "2 \<le> len (NDArray [2] [[0, 0], [2 :: real, 0]])"
    by (simp add: len_def)
  from mean_returns_initial_point [OF mean_settling two] mean_settling two
  show ?thesis by blast
qed

text \<open>
  Claim C4. The claim is that, for the flat metric of the plane, \<^verbatim>\<open>mean\<close> on the points
  \<open>[[0,0],[2,0],[1,2]]\<close> with weights \<open>[1,1,1]\<close> returns about \<open>[1.0, 0.667]\<close> after one
  pass. The call ends in its first pass with an \<open>AttributeError\<close> at
  \<^verbatim>\<open>self.squared_distance\<close>. In a class that defines \<^verbatim>\<open>squared_distance\<close>, every pass computes
  \<^verbatim>\<open>sq_dist = 13/9\<close> and \<^verbatim>\<open>variance = 14/3\<close> from the unchanged \<^verbatim>\<open>mean = [0,0]\<close>, fails the exit
  test, and the loop is still running after any number of passes.
\<close>

theorem mean_euclidean_scenario:
  "mean (Suc fuel) (euclid2 :: (vec, unit) metric) (NDArray [2] [[0, 0], [2, 0], [1, 2]])
       (Some [1, 1, 1]) 100 EPSILON s0 =
     Some (Inl (AttributeError ''squared_distance''), s0) \<and>
   mean_iteration (euclid2_sd :: (vec, unit) metric) (NDArray [2] [[0, 0], [2, 0], [1, 2]])
       [1, 1, 1] 3 [0, 0] 3 s0 =
     (Inr (13 / 9, 14 / 3), s0) \<and>
   mean fuel (euclid2_sd :: (vec, unit) metric) (NDArray [2] [[0, 0], [2, 0], [1, 2]])
       (Some [1, 1, 1]) 100 EPSILON s0 =
     None"
  using euclid2_sd_iteration_three [of s0]
  by (simp add: mean_three_points_no_attribute mean_three_points_runs_on numeral_3_eq_3)

section \<open>The shape of the points\<close>

lemma mean_iteration_needs_variance:
  "mean_iteration M points ws sw m np s = (Inr x, s') \<Longrightarrow>
   \<exists>bp s1 v. variance M bp points ws s1 = (Inr v, s')"
  by (auto simp: mean_iteration_def comp_defs split: prod.splits sum.splits)

lemma mean_loop_never_returns:
  "\<not> unpacks_into_two points \<Longrightarrow>
   mean_loop fuel M points ws sw m np n eps it s \<noteq> Some (Inr r, s')"
proof (induction fuel arbitrary: it s)
  case 0
  then show ?case by simp
next
  case (Suc fuel)
  have no: "\<And>x t. mean_iteration M points ws sw m np s \<noteq> (Inr x, t)"
  proof
    fix x t assume "mean_iteration M points ws sw m np s = (Inr x, t)"
    from mean_iteration_needs_variance [OF this]
    obtain bp s1 v where "variance M bp points ws s1 = (Inr v, t)" by blast
    with variance_not_two_dimensional [OF Suc.prems, of M bp ws s1] show False by simp
  qed
  show ?case
    using Suc.IH [OF Suc.prems] no
    by (auto simp: Let_def split: prod.splits sum.splits if_splits)
qed

lemma mean_loop_needs_two_dimensional:
  "mean_loop fuel M points ws sw m np n eps it s = Some (Inr r, s') \<Longrightarrow>
   unpacks_into_two points"
  by (rule ccontr) (simp add: mean_loop_never_returns)

lemma mean_needs_two_dimensional:
  "\<not> unpacks_into_two points \<Longrightarrow> 2 \<le> len points \<Longrightarrow>
   mean fuel M points weights n eps s \<noteq> Some (Inr r, s')"
  by (auto simp: mean_def Let_def comp_defs dest: mean_loop_needs_two_dimensional)

lemma mean_flat_array:
  "mean (Suc fuel) line_sd (NDArray [] [0, 1]) None 100 EPSILON s =
     Some (Inl (ValueError Unpack_shape), s)"
  by (simp add: mean_def len_def mean_iteration_def call_squared_distance_def line_sd_def
      variance_def comp_defs array_defs)

lemma mean_python_list:
  "mean (Suc fuel) euclid2_sd (PyList [[0, 0], [2, 0]]) None 100 EPSILON s =
     Some (Inl (AttributeError ''shape''), s)"
  by (simp add: mean_def len_def mean_iteration_def call_squared_distance_def euclid2_sd_def
      euclid2_def variance_def squared_dist_def squared_norm_def inner_product_def
      comp_defs array_defs)


text \<open>
  Claim C10, as amended. \<^verbatim>\<open>variance\<close> ends at \<^verbatim>\<open>n_points, _ = points.shape\<close>, before
  anything is computed, on every points argument that has no shape or whose shape is not
  of two values. The checks of \<^verbatim>\<open>mean\<close> do not look at the shape, and a single point is
  returned whatever the shape. With two or more points, every pass of the loop of \<^verbatim>\<open>mean\<close>
  hands the points to \<^verbatim>\<open>variance\<close>: on a points argument that has no shape or whose shape
  is not of two values, \<^verbatim>\<open>mean\<close> returns no value.
\<close>

theorem shape_requirement_of_variance_and_mean:
  "(\<not> unpacks_into_two points \<longrightarrow>
      variance M base_point points ws s =
        (Inl (case points of
                PyList ps \<Rightarrow> AttributeError ''shape''
              | NDArray ish ps \<Rightarrow> ValueError Unpack_shape), s)) \<and>
   (items points = [p] \<and> (weights = None \<or> (\<exists>w. weights = Some [w])) \<longrightarrow>
      mean fuel M points weights n_max_iterations epsilon s = Some (Inr p, s)) \<and>
   (\<not> unpacks_into_two points \<and> 2 \<le> len points \<longrightarrow>
      mean fuel M points weights n_max_iterations epsilon s \<noteq> Some (Inr r, s'))"
  using variance_not_two_dimensional [of points M base_point ws s]
    mean_single [of points p weights fuel M n_max_iterations epsilon s]
    mean_needs_two_dimensional [of points fuel M weights n_max_iterations epsilon s r s']
  by blast

theorem shape_requirement_of_variance_and_mean_witness:
  "\<not> unpacks_into_two (NDArray [] [0 :: real, 1]) \<and>
   variance (line_sd :: (real, unit) metric) 0 (NDArray [] [0, 1]) [1, 1] s0 =
     (Inl (ValueError Unpack_shape), s0) \<and>
   \<not> unpacks_into_two (PyList [[0 :: real, 0], [2, 0]]) \<and>
   variance (euclid2_sd :: (vec, unit) metric) [0, 0] (PyList [[0, 0], [2, 0]]) [1, 1] s0 =
     (Inl (AttributeError ''shape''), s0) \<and>
   mean 0 (line_sd :: (real, unit) metric) (NDArray [] [7]) None 100 EPSILON s0 =
     Some (Inr 7, s0) \<and>
   2 \<le> len (NDArray [] [0 :: real, 1]) \<and>
   mean 5 (line_sd :: (real, unit) metric) (NDArray [] [0, 1]) None 100 EPSILON s0 \<noteq>
     Some (Inr 0, s0)"
  using shape_requirement_of_variance_and_mean
      [of "NDArray [] [0, 1]" line_sd 0 "[1, 1]" s0 0 None 5 100 EPSILON 0 s0]
    shape_requirement_of_variance_and_mean
      [of "PyList [[0, 0], [2, 0]]" euclid2_sd "[0, 0]" "[1, 1]" s0 "[0, 0]" None 5 100 EPSILON
        "[0, 0]" s0]
    shape_requirement_of_variance_and_mean
      [of "NDArray [] [7]" line_sd 0 "[1]" s0 7 None 0 100 EPSILON 0 s0]
  by (simp add: unpacks_into_two_def len_def)

text \<open>
  The claim as stated fails: \<^verbatim>\<open>mean\<close> does not accept every non-empty indexable sequence.
  In a class that defines \<^verbatim>\<open>squared_distance\<close>, a flat array of two scalar points ends
  with the \<open>ValueError\<close> of the unpacking in \<^verbatim>\<open>variance\<close>, and a Python list of two points
  with the \<open>AttributeError\<close> of \<^verbatim>\<open>points.shape\<close>.
\<close>

theorem mean_rejects_points_without_two_dimensional_shape:
  "mean 1 (line_sd :: (real, unit) metric) (NDArray [] [0, 1]) None 100 EPSILON s0 =
     Some (Inl (ValueError Unpack_shape), s0) \<and>
   mean 1 (euclid2_sd :: (vec, unit) metric) (PyList [[0, 0], [2, 0]]) None 100 EPSILON s0 =
     Some (Inl (AttributeError ''shape''), s0)"
  by (simp add: mean_flat_array mean_python_list)

section \<open>The state of the instance\<close>

lemma keeps_ret: "keeps g (ret v)"
  by (simp add: keeps_def ret_def)

lemma keeps_raise: "keeps g (raise e)"
  by (simp add: keeps_def raise_def)

lemma keeps_lift: "keeps g (lift r)"
  by (cases r) (simp_all add: lift_def keeps_ret keeps_raise)

lemma keeps_bnd: "keeps g c \<Longrightarrow> (\<And>v. keeps g (f v)) \<Longrightarrow> keeps g (bnd c f)"
  unfolding keeps_def bnd_def
proof
  fix s
  assume c: "\<forall>s. g (snd (c s)) = g s" and f: "\<And>v. \<forall>s. g (snd (f v s)) = g s"
  obtain r s1 where cs: "c s = (r, s1)" by (cases "c s")
  with c have g1: "g s1 = g s" by (metis snd_conv)
  show "g (snd (case c s of (Inl e, s') \<Rightarrow> (Inl e, s') | (Inr v, s') \<Rightarrow> f v s')) = g s"
    using cs g1 f by (cases r) simp_all
qed

lemma keeps_if: "keeps g c \<Longrightarrow> keeps g d \<Longrightarrow> keeps g (if b then c else d)"
  by simp

lemma keeps_inner_product:
  "capabilities_keep g M \<Longrightarrow> keeps g (inner_product M a b p)"
  unfolding inner_product_def
  by (intro keeps_bnd keeps_lift) (simp add: capabilities_keep_def)

lemma keeps_squared_norm: "capabilities_keep g M \<Longrightarrow> keeps g (squared_norm M v p)"
  by (simp add: squared_norm_def keeps_inner_product)

lemma keeps_norm_m: "capabilities_keep g M \<Longrightarrow> keeps g (norm_m M v p)"
  unfolding norm_m_def
  by (intro keeps_bnd keeps_if keeps_raise keeps_ret keeps_squared_norm)

lemma keeps_squared_dist: "capabilities_keep g M \<Longrightarrow> keeps g (squared_dist M a b)"
  unfolding squared_dist_def
  by (intro keeps_bnd keeps_squared_norm) (simp_all add: capabilities_keep_def)

lemma keeps_dist_m: "capabilities_keep g M \<Longrightarrow> keeps g (dist_m M a b)"
  unfolding dist_m_def
  by (intro keeps_bnd keeps_if keeps_raise keeps_ret keeps_squared_dist)

lemma keeps_call_squared_distance:
  "capabilities_keep g M \<Longrightarrow> keeps g (call_squared_distance M a b)"
  by (cases "squared_distance M") (simp_all add: call_squared_distance_def capabilities_keep_def keeps_raise)

lemma keeps_variance_loop:
  "capabilities_keep g M \<Longrightarrow> keeps g (variance_loop M bp ps ws is acc)"
  by (induction "is" arbitrary: acc)
     (simp_all add: keeps_ret keeps_bnd keeps_call_squared_distance)

lemma keeps_variance: "capabilities_keep g M \<Longrightarrow> keeps g (variance M bp points ws)"
  unfolding variance_def
  by (auto intro!: keeps_bnd keeps_lift keeps_raise keeps_variance_loop split: list.splits)

lemma keeps_tangent_mean_loop:
  "capabilities_keep g M \<Longrightarrow> keeps g (tangent_mean_loop M ps ws m is tm)"
proof (induction "is" arbitrary: tm)
  case Nil
  then show ?case by (simp add: keeps_ret)
next
  case (Cons i rest)
  from Cons.prems have "keeps g (log_m M (ps ! i) (Some m))" by (simp add: capabilities_keep_def)
  then show ?case using Cons by (simp add: keeps_bnd keeps_lift)
qed

lemma keeps_mean_iteration:
  "capabilities_keep g M \<Longrightarrow> keeps g (mean_iteration M points ws sw m np)"
  unfolding mean_iteration_def
  by (intro keeps_bnd keeps_ret keeps_variance keeps_call_squared_distance keeps_tangent_mean_loop)
     (simp_all add: capabilities_keep_def)

lemma keeps_mean_loop:
  assumes "ignores_log g" and "capabilities_keep g M"
  shows "mean_loop fuel M points ws sw m np n eps it s = Some (r, s') \<Longrightarrow> g s' = g s"
proof (induction fuel arbitrary: it s)
  case 0
  then show ?case by simp
next
  case (Suc fuel)
  obtain r1 s1 where it1: "mean_iteration M points ws sw m np s = (r1, s1)"
    by (cases "mean_iteration M points ws sw m np s")
  have g1: "g s1 = g s"
    using keeps_mean_iteration [OF assms(2), of points ws sw m np] it1
    by (metis keeps_def snd_conv)
  have gl: "\<And>l. g (s1\<lparr>logged := l\<rparr>) = g s" using assms(1) g1 by (simp add: ignores_log_def)
  show ?case
  proof (cases r1)
    case (Inl e)
    with Suc.prems it1 g1 show ?thesis by auto
  next
    case (Inr x)
    obtain sq var where x: "x = (sq, var)" by (cases x)
    show ?thesis
      using Suc.prems it1 Inr x g1 gl Suc.IH
      by (auto simp: Let_def split: if_splits)
  qed
qed

lemma keeps_mean:
  assumes "ignores_log g" and "capabilities_keep g M"
  shows "case mean fuel M points ws n eps s of None \<Rightarrow> True | Some (r, s') \<Rightarrow> g s' = g s"
  using keeps_mean_loop [OF assms]
  by (auto simp: mean_def Let_def comp_defs split: option.splits)

lemma derived_keep_generic:
  assumes "ignores_log g" and "capabilities_keep g M"
  shows "derived_keep g M"
  unfolding derived_keep_def
  using keeps_mean [OF assms] assms(2)
  by (simp add: keeps_inner_product keeps_squared_norm keeps_norm_m keeps_squared_dist
        keeps_dist_m keeps_variance)

lemma ignores_log_dimension: "ignores_log dimension"
  by (simp add: ignores_log_def)

lemma ignores_log_self_of: "ignores_log self_of"
  by (simp add: ignores_log_def self_of_def)




lemma euclid2_keeps: "capabilities_keep g (euclid2 :: (vec, 'x) metric)"
  by (simp add: capabilities_keep_def euclid2_def keeps_ret keeps_raise keeps_lift
      split: option.splits)

lemma euclid2_sd_keeps: "capabilities_keep g (euclid2_sd :: (vec, 'x) metric)"
  using euclid2_keeps [of g]
  by (simp add: capabilities_keep_def euclid2_sd_def keeps_squared_dist euclid2_keeps)

lemma settling_keeps_dimension: "capabilities_keep dimension settling"
  by (simp add: capabilities_keep_def settling_def euclid2_def keeps_def comp_defs
      split: option.splits sum.splits)

lemma settling_changes_attrs: "\<not> capabilities_keep self_of settling"
  by (simp add: capabilities_keep_def settling_def keeps_def self_of_def)


text \<open>
  Claim C9. No derived method changes the instance: when the methods a concrete variant
  supplies leave \<^verbatim>\<open>self.dimension\<close> as it is, so do \<^verbatim>\<open>inner_product\<close>, \<^verbatim>\<open>squared_norm\<close>,
  \<^verbatim>\<open>norm\<close>, \<^verbatim>\<open>squared_dist\<close>, \<^verbatim>\<open>dist\<close>, \<^verbatim>\<open>variance\<close> and \<^verbatim>\<open>mean\<close>, whether they return or
  raise; and when the supplied methods leave every attribute of the instance as it is, so
  do the derived methods. What a derived method returns is a function of its arguments,
  the supplied methods and the state they read; the one effect of the class is the warning
  of \<^verbatim>\<open>mean\<close>.
\<close>

theorem derived_operations_keep_instance:
  "(capabilities_keep dimension M \<longrightarrow> derived_keep dimension M) \<and>
   (capabilities_keep self_of M \<longrightarrow> derived_keep self_of M)"
  by (simp add: derived_keep_generic ignores_log_dimension ignores_log_self_of)

theorem derived_operations_keep_instance_witness:
  "capabilities_keep dimension settling \<and> derived_keep dimension settling \<and>
   \<not> capabilities_keep self_of settling \<and>
   dimension (snd (variance settling [0, 0] (NDArray [2] [[1, 0]]) [1] c0)) = 2 \<and>
   capabilities_keep self_of (euclid2_sd :: (vec, unit) metric) \<and>
   derived_keep self_of (euclid2_sd :: (vec, unit) metric)"
proof -
  from derived_operations_keep_instance [of settling] settling_keeps_dimension
  have d: "derived_keep dimension settling"
    by blast
  then have "keeps dimension (variance settling [0, 0] (NDArray [2] [[1, 0]]) [1])"
    by (simp add: derived_keep_def)
  then have v: "dimension (snd (variance settling [0, 0] (NDArray [2] [[1, 0]]) [1] c0)) = 2"
    by (simp add: keeps_def state_defs)
  from derived_operations_keep_instance [of "euclid2_sd :: (vec, unit) metric"] euclid2_sd_keeps
  have e: "derived_keep self_of (euclid2_sd :: (vec, unit) metric)"
    by blast
  show ?thesis
    using d v e settling_keeps_dimension settling_changes_attrs euclid2_sd_keeps by blast
qed

end
